theory Spec2Isabelle
  imports Complex_Main "HOL-Library.Sublist"
begin

section \<open>Text\<close>

text \<open>
  Python strings are modelled as \<^typ>\<open>string\<close>, the UTF-8 bytes of the text. The fixed
  texts of the program hold a few characters outside ASCII; they appear below as their
  bytes. The keywords of the classifier are ASCII, and case folding is modelled on the
  ASCII letters. The regular expressions of the pattern detector work on characters,
  not bytes, and know the digits, letters and white space of Unicode: the detector
  below splits the bytes into characters and takes Python's table of the characters
  outside ASCII as a parameter.
\<close>

definition lower_char :: "char \<Rightarrow> char" where
  "lower_char c =
     (case map_of (zip ''ABCDEFGHIJKLMNOPQRSTUVWXYZ'' ''abcdefghijklmnopqrstuvwxyz'') c of
        Some l \<Rightarrow> l
      | None \<Rightarrow> c)"

definition lower :: "string \<Rightarrow> string" where
  "lower s = map lower_char s"

text \<open>\<^verbatim>\<open>sep.join(parts)\<close>\<close>

fun join :: "string \<Rightarrow> string list \<Rightarrow> string" where
  "join sep [] = []"
| "join sep [x] = x"
| "join sep (x # y # ys) = x @ sep @ join sep (y # ys)"

text \<open>\<^verbatim>\<open>str(n)\<close> for a natural number: its decimal digits.\<close>

definition digit_char :: "nat \<Rightarrow> char" where
  "digit_char d = ''0123456789'' ! d"

fun str_nat :: "nat \<Rightarrow> string" where
  "str_nat n = (if n < 10 then [digit_char n] else str_nat (n div 10) @ [digit_char (n mod 10)])"

declare str_nat.simps [simp del]

section \<open>Severity classifier\<close>

datatype CommentSeverity = GENTLE | MODERATE | HARSH | CRITICAL

text \<open>The \<^verbatim>\<open>.value\<close> of each member of the enumeration.\<close>

fun severity_value :: "CommentSeverity \<Rightarrow> string" where
  "severity_value GENTLE = ''gentle''"
| "severity_value MODERATE = ''moderate''"
| "severity_value HARSH = ''harsh''"
| "severity_value CRITICAL = ''critical''"

text \<open>
  \<^verbatim>\<open>self.severity_keywords\<close>: a dictionary, iterated in insertion order, so an
  association list in the order the source writes it.
\<close>

definition severity_keywords :: "(CommentSeverity \<times> string list) list" where
  "severity_keywords =
     [(CRITICAL, [''terrible'', ''awful'', ''horrible'', ''stupid'', ''idiotic'', ''garbage'']),
      (HARSH, [''bad'', ''wrong'', ''inefficient'', ''poor'', ''sloppy'', ''messy'']),
      (MODERATE, [''should'', ''could'', ''consider'', ''might want to'', ''try'']),
      (GENTLE, [''perhaps'', ''maybe'', ''suggestion'', ''alternatively''])]"

text \<open>\<^verbatim>\<open>any(keyword in comment_lower for keyword in keywords)\<close>\<close>

definition any_keyword_in :: "string list \<Rightarrow> string \<Rightarrow> bool" where
  "any_keyword_in keywords comment_lower = list_ex (\<lambda>keyword. sublist keyword comment_lower) keywords"

text \<open>
  The loop over \<^verbatim>\<open>self.severity_keywords.items()\<close>, with the \<^verbatim>\<open>return\<close> after the loop
  as the value on the exhausted list.
\<close>

fun severity_loop :: "(CommentSeverity \<times> string list) list \<Rightarrow> string \<Rightarrow> CommentSeverity" where
  "severity_loop [] comment_lower = GENTLE"
| "severity_loop ((severity, keywords) # rest) comment_lower =
     (if any_keyword_in keywords comment_lower then severity
      else severity_loop rest comment_lower)"

definition analyze_comment_severity :: "string \<Rightarrow> CommentSeverity" where
  "analyze_comment_severity comment =
     (let comment_lower = lower comment in severity_loop severity_keywords comment_lower)"

text \<open>The keywords of one severity, and whether a comment holds one of them, case aside.\<close>

definition keywords_of :: "CommentSeverity \<Rightarrow> string list" where
  "keywords_of severity = concat (map snd (filter (\<lambda>entry. fst entry = severity) severity_keywords))"

definition has_keyword :: "CommentSeverity \<Rightarrow> string \<Rightarrow> bool" where
  "has_keyword severity comment = any_keyword_in (keywords_of severity) (lower comment)"

text \<open>The harshness order of the severities: the order of the enumeration.\<close>

fun harshness :: "CommentSeverity \<Rightarrow> nat" where
  "harshness GENTLE = 0"
| "harshness MODERATE = 1"
| "harshness HARSH = 2"
| "harshness CRITICAL = 3"

section \<open>Pattern detector\<close>

text \<open>
  A character of the snippet is held as its UTF-8 bytes: one byte below 128, or a lead
  byte (the two top bits set) with the continuation bytes (top bits 1 and 0) that
  follow it. \<open>chars_of\<close> gives the characters of a text in their order.
\<close>

type_synonym uchar = string

definition is_lead_byte :: "char \<Rightarrow> bool" where
  "is_lead_byte b = (digit7 b \<and> digit6 b)"

definition is_continuation_byte :: "char \<Rightarrow> bool" where
  "is_continuation_byte b = (digit7 b \<and> \<not> digit6 b)"

function chars_of :: "string \<Rightarrow> uchar list" where
  "chars_of [] = []"
| "chars_of (b # bs) =
     (if is_lead_byte b
      then (b # takeWhile is_continuation_byte bs) # chars_of (dropWhile is_continuation_byte bs)
      else [b] # chars_of bs)"
  by pat_completeness auto
termination
  by (relation "measure length") (auto simp: length_dropWhile_le less_Suc_eq_le)

text \<open>
  The classes \<^verbatim>\<open>\d\<close>, \<^verbatim>\<open>\w\<close> and \<^verbatim>\<open>\s\<close> of a pattern on text are those of Unicode. On
  the ASCII characters they are fixed. For the other characters the program relies on
  the character table of the interpreter, which is a parameter here: which characters
  are decimal digits, which are alphanumeric, which are white space. The functions
  that run the detector take the table and pass it on.
\<close>

record unicode_db =
  uc_decimal :: "uchar \<Rightarrow> bool"
  uc_alnum :: "uchar \<Rightarrow> bool"
  uc_space :: "uchar \<Rightarrow> bool"

definition ascii_char :: "uchar \<Rightarrow> bool" where
  "ascii_char x = (case x of [b] \<Rightarrow> \<not> digit7 b | _ \<Rightarrow> False)"

text \<open>The character is one of the given ASCII characters.\<close>

definition one_of :: "string \<Rightarrow> uchar \<Rightarrow> bool" where
  "one_of cs x = (x \<in> set (map (\<lambda>c. [c]) cs))"

text \<open>
  The five regular expressions use single characters and character classes, the
  repetitions \<^verbatim>\<open>+\<close>, \<^verbatim>\<open>*\<close> and \<^verbatim>\<open>{2,}\<close> of one class, the word boundary \<^verbatim>\<open>\b\<close>, a
  negative lookahead and one alternation at top level. A regular expression is a list
  of alternatives, each a sequence of items.
\<close>

datatype cclass =
    Chr char    \<comment> \<open>the (ASCII) character itself\<close>
  | AnyChar     \<comment> \<open>\<^verbatim>\<open>.\<close>: any character but the newline\<close>
  | Space       \<comment> \<open>\<^verbatim>\<open>\s\<close>\<close>
  | Digit       \<comment> \<open>\<^verbatim>\<open>\d\<close>\<close>
  | LowerAZ     \<comment> \<open>\<^verbatim>\<open>[a-z]\<close>\<close>

datatype item =
    Single cclass              \<comment> \<open>one character of the class\<close>
  | AtLeast nat cclass      \<comment> \<open>\<^verbatim>\<open>{n,}\<close>: \<^verbatim>\<open>*\<close> is \<open>AtLeast 0\<close>, \<^verbatim>\<open>+\<close> is \<open>AtLeast 1\<close>\<close>
  | WordBoundary            \<comment> \<open>\<^verbatim>\<open>\b\<close>\<close>
  | NotFollowedBy "item list"   \<comment> \<open>\<^verbatim>\<open>(?!...)\<close>\<close>

text \<open>\<^verbatim>\<open>\d\<close>: the ten ASCII digits and the decimal digits of the other scripts.\<close>

definition is_digit :: "unicode_db \<Rightarrow> uchar \<Rightarrow> bool" where
  "is_digit u x = (one_of ''0123456789'' x \<or> \<not> ascii_char x \<and> uc_decimal u x)"

definition is_lower_az :: "uchar \<Rightarrow> bool" where
  "is_lower_az x = one_of ''abcdefghijklmnopqrstuvwxyz'' x"

definition is_upper_az :: "uchar \<Rightarrow> bool" where
  "is_upper_az x = one_of ''ABCDEFGHIJKLMNOPQRSTUVWXYZ'' x"

text \<open>\<^verbatim>\<open>\s\<close>: in ASCII the tab, newline, vertical tab, form feed, carriage return, the
  four separators \<^verbatim>\<open>\x1c\<close> to \<^verbatim>\<open>\x1f\<close> and the blank; outside ASCII the white space
  of Unicode.\<close>

definition is_space :: "unicode_db \<Rightarrow> uchar \<Rightarrow> bool" where
  "is_space u x =
     (one_of [CHR 0x09, CHR 0x0A, CHR 0x0B, CHR 0x0C, CHR 0x0D,
              CHR 0x1C, CHR 0x1D, CHR 0x1E, CHR 0x1F, CHR 0x20] x
      \<or> \<not> ascii_char x \<and> uc_space u x)"

text \<open>\<^verbatim>\<open>\w\<close>: in ASCII the letters, the digits and the underscore; outside ASCII the
  alphanumeric characters, the decimal digits among them.\<close>

definition is_word :: "unicode_db \<Rightarrow> uchar \<Rightarrow> bool" where
  "is_word u x =
     (is_lower_az x \<or> is_upper_az x \<or> one_of ''0123456789'' x \<or> x = ''_''
      \<or> \<not> ascii_char x \<and> (uc_alnum u x \<or> uc_decimal u x))"

fun in_class :: "unicode_db \<Rightarrow> cclass \<Rightarrow> uchar \<Rightarrow> bool" where
  "in_class u (Chr c) x = (x = [c])"
| "in_class u AnyChar x = (x \<noteq> [CHR 0x0A])"
| "in_class u Space x = is_space u x"
| "in_class u Digit x = is_digit u x"
| "in_class u LowerAZ x = is_lower_az x"

text \<open>Whether the character before or after a position is a word character; there is
  none at the two ends of the text.\<close>

fun word_at :: "unicode_db \<Rightarrow> uchar option \<Rightarrow> bool" where
  "word_at u None = False"
| "word_at u (Some c) = is_word u c"

fun next_char :: "uchar list \<Rightarrow> uchar option" where
  "next_char [] = None"
| "next_char (x # xs) = Some x"

text \<open>
  \<open>re_match u items prev s\<close>: the items match some prefix of the characters \<open>s\<close>, where
  \<open>prev\<close> is the character before \<open>s\<close> in the whole text. The search only asks whether
  there is a match, so the order in which a backtracking matcher tries the repetitions
  does not show.
\<close>

fun re_match :: "unicode_db \<Rightarrow> item list \<Rightarrow> uchar option \<Rightarrow> uchar list \<Rightarrow> bool" where
  "re_match u [] prev s = True"
| "re_match u (Single cls # rest) prev [] = False"
| "re_match u (Single cls # rest) prev (x # xs) =
     (in_class u cls x \<and> re_match u rest (Some x) xs)"
| "re_match u (AtLeast n cls # rest) prev [] = (n = 0 \<and> re_match u rest prev [])"
| "re_match u (AtLeast n cls # rest) prev (x # xs) =
     ((in_class u cls x \<and> re_match u (AtLeast (n - 1) cls # rest) (Some x) xs)
      \<or> (n = 0 \<and> re_match u rest prev (x # xs)))"
| "re_match u (WordBoundary # rest) prev s =
     (word_at u prev \<noteq> word_at u (next_char s) \<and> re_match u rest prev s)"
| "re_match u (NotFollowedBy ahead # rest) prev s =
     (\<not> re_match u ahead prev s \<and> re_match u rest prev s)"

text \<open>A match of one of the alternatives, starting at any position of the characters.\<close>

fun search_from :: "unicode_db \<Rightarrow> item list list \<Rightarrow> uchar option \<Rightarrow> uchar list \<Rightarrow> bool" where
  "search_from u regex prev [] = list_ex (\<lambda>items. re_match u items prev []) regex"
| "search_from u regex prev (x # xs) =
     (list_ex (\<lambda>items. re_match u items prev (x # xs)) regex
      \<or> search_from u regex (Some x) xs)"

text \<open>\<^verbatim>\<open>bool(re.search(regex, code, re.MULTILINE))\<close>; the patterns have no anchor, so
  the flag changes nothing.\<close>

definition re_search :: "unicode_db \<Rightarrow> item list list \<Rightarrow> string \<Rightarrow> bool" where
  "re_search u regex code = search_from u regex None (chars_of code)"

text \<open>A run of literal characters of a pattern.\<close>

definition lit :: "string \<Rightarrow> item list" where
  "lit s = map (\<lambda>c. Single (Chr c)) s"

text \<open>\<^verbatim>\<open>self.code_patterns\<close>, in the order of the source.\<close>

definition list_comprehension_re :: "item list list" where
  \<comment> \<open>\<^verbatim>\<open>for .+ in .+:\s*if .+:\s*.+\.append\<close>\<close>
  "list_comprehension_re =
     [lit ''for '' @ [AtLeast 1 AnyChar] @ lit '' in '' @ [AtLeast 1 AnyChar] @ lit '':''
        @ [AtLeast 0 Space] @ lit ''if '' @ [AtLeast 1 AnyChar] @ lit '':''
        @ [AtLeast 0 Space, AtLeast 1 AnyChar] @ lit ''.append'']"

definition boolean_redundancy_re :: "item list list" where
  \<comment> \<open>\<^verbatim>\<open>== True|== False\<close>\<close>
  "boolean_redundancy_re = [lit ''== True'', lit ''== False'']"

definition single_letter_vars_re :: "item list list" where
  \<comment> \<open>\<^verbatim>\<open>\b[a-z]\b(?!\s*=)\<close>\<close>
  "single_letter_vars_re =
     [[WordBoundary, Single LowerAZ, WordBoundary,
       NotFollowedBy [AtLeast 0 Space, Single (Chr CHR ''='')]]]"

definition magic_numbers_re :: "item list list" where
  \<comment> \<open>\<^verbatim>\<open>\b\d{2,}\b\<close>\<close>
  "magic_numbers_re = [[WordBoundary, AtLeast 2 Digit, WordBoundary]]"

definition nested_loops_re :: "item list list" where
  \<comment> \<open>\<^verbatim>\<open>for .+ in .+:\s*for .+ in\<close>\<close>
  "nested_loops_re =
     [lit ''for '' @ [AtLeast 1 AnyChar] @ lit '' in '' @ [AtLeast 1 AnyChar] @ lit '':''
        @ [AtLeast 0 Space] @ lit ''for '' @ [AtLeast 1 AnyChar] @ lit '' in'']"

definition code_patterns :: "(string \<times> item list list) list" where
  "code_patterns =
     [(''list_comprehension'', list_comprehension_re),
      (''boolean_redundancy'', boolean_redundancy_re),
      (''single_letter_vars'', single_letter_vars_re),
      (''magic_numbers'', magic_numbers_re),
      (''nested_loops'', nested_loops_re)]"

text \<open>The dictionary \<^verbatim>\<open>patterns_found\<close>, one entry per pattern, in the order of
  \<^verbatim>\<open>code_patterns\<close>.\<close>

definition detect_code_patterns :: "unicode_db \<Rightarrow> string \<Rightarrow> (string \<times> bool) list" where
  "detect_code_patterns u code =
     map (\<lambda>(pattern_name, regex). (pattern_name, re_search u regex code)) code_patterns"

section \<open>Tone selector\<close>

definition tone_map :: "(CommentSeverity \<times> string) list" where
  "tone_map =
     [(CRITICAL, ''I understand this feedback might have felt harsh. Let'' @ [CHR 0x27]
                   @ ''s reframe it constructively''),
      (HARSH, ''This is actually a great learning opportunity''),
      (MODERATE, ''Good observation! Here'' @ [CHR 0x27] @ ''s how we can build on it''),
      (GENTLE, ''Nice suggestion! Let'' @ [CHR 0x27] @ ''s explore this further'')]"

definition default_tone :: string where
  "default_tone = ''Let'' @ [CHR 0x27] @ ''s look at this feedback''"

text \<open>\<^verbatim>\<open>d.get(key, default)\<close> on a dictionary held as an association list.\<close>

definition dict_get :: "('k \<times> 'v) list \<Rightarrow> 'k \<Rightarrow> 'v \<Rightarrow> 'v" where
  "dict_get d key dflt = (case map_of d key of Some v \<Rightarrow> v | None \<Rightarrow> dflt)"

text \<open>The selector on an argument of the type its signature announces.\<close>

definition get_contextual_tone :: "CommentSeverity \<Rightarrow> string" where
  "get_contextual_tone severity = dict_get tone_map severity default_tone"

text \<open>
  Python does not enforce the annotation, so the selector can be called with any
  object. \<open>py_object\<close> holds the members of the enumeration and some other objects:
  \<^verbatim>\<open>None\<close>, strings and lists. A member of a plain \<^verbatim>\<open>Enum\<close> is equal to itself
  only, so none of the other objects is equal to a key of \<^verbatim>\<open>tone_map\<close>. The lookup
  hashes its argument first, and a list cannot be hashed: it raises \<^verbatim>\<open>TypeError\<close>.
\<close>

datatype py_object = Member CommentSeverity | PyNone | PyStr string | PyList "py_object list"

fun hashable :: "py_object \<Rightarrow> bool" where
  "hashable (Member severity) = True"
| "hashable PyNone = True"
| "hashable (PyStr s) = True"
| "hashable (PyList xs) = False"

datatype error = KeyError string | ValueError string | TypeError

text \<open>\<^verbatim>\<open>tone_map\<close> with its keys as objects.\<close>

definition tone_map_objects :: "(py_object \<times> string) list" where
  "tone_map_objects = map (\<lambda>(severity, tone). (Member severity, tone)) tone_map"

definition get_contextual_tone_any :: "py_object \<Rightarrow> error + string" where
  "get_contextual_tone_any severity =
     (if hashable severity then Inr (dict_get tone_map_objects severity default_tone)
      else Inl TypeError)"

section \<open>Prompt composer\<close>

text \<open>Fixed text 1 of the f-string that \<^verbatim>\<open>create_master_prompt\<close> returns.\<close>

definition master_prompt_text_1 :: string where
  "master_prompt_text_1 = concat
     [''You are a world-class senior software engineer and mentor known for transforming '',
      ''junior developers into confident programmers. You have a gift for turning '',
      ''criticism into growth opportunities.\<newline>'',
      ''\<newline>'',
      ''**CODE ANALYSIS:**\<newline>'',
      ''```python\<newline>'']"

text \<open>Fixed text 2 of the f-string that \<^verbatim>\<open>create_master_prompt\<close> returns.\<close>

definition master_prompt_text_2 :: string where
  "master_prompt_text_2 = concat
     [''\<newline>'',
      ''```\<newline>'',
      ''\<newline>'',
      ''**DETECTED PATTERNS:** '']"

text \<open>Fixed text 3 of the f-string that \<^verbatim>\<open>create_master_prompt\<close> returns.\<close>

definition master_prompt_text_3 :: string where
  "master_prompt_text_3 = concat
     [''\<newline>'',
      ''\<newline>'',
      ''**COMMENT SEVERITY ANALYSIS:**\<newline>'']"

text \<open>Fixed text 4 of the f-string that \<^verbatim>\<open>create_master_prompt\<close> returns.\<close>

definition master_prompt_text_4 :: string where
  "master_prompt_text_4 = concat
     [''\<newline>'',
      ''\<newline>'',
      ''**ORIGINAL COMMENTS TO TRANSFORM:**\<newline>'']"

text \<open>Fixed text 5 of the f-string that \<^verbatim>\<open>create_master_prompt\<close> returns.\<close>

definition master_prompt_text_5 :: string where
  "master_prompt_text_5 = concat
     [''\<newline>'',
      ''\<newline>'',
      ''**YOUR MISSION:**\<newline>'',
      ''Transform each comment into a mentoring masterpiece. For each comment, create:\<newline>'',
      ''\<newline>'',
      ''---\<newline>'',
      ''### '',
      [CHR 0xF0, CHR 0x9F, CHR 0x94, CHR 0x8D],
      '' Analysis of Comment: '',
      [CHR 0x22]]"

text \<open>Fixed text 6 of the f-string that \<^verbatim>\<open>create_master_prompt\<close> returns.\<close>

definition master_prompt_text_6 :: string where
  "master_prompt_text_6 = concat
     [[CHR 0x22],
      ''\<newline>'',
      ''\<newline>'',
      ''**'',
      [CHR 0xF0, CHR 0x9F, CHR 0x92, CHR 0x9A],
      '' Positive Rephrasing:**\<newline>'',
      ''[Start with genuine praise for what they got right, then gently introduce '',
      ''the improvement. Match your tone to the original comment'',
      [CHR 0x27],
      ''s severity - be extra encouraging for harsh comments]\<newline>'',
      ''\<newline>'',
      ''**'',
      [CHR 0xF0, CHR 0x9F, CHR 0xA7, CHR 0xA0],
      '' The '',
      [CHR 0x27],
      ''Why'',
      [CHR 0x27],
      '' (Software Engineering Principle):**\<newline>'',
      ''[Explain the deeper principle: performance, readability, maintainability, '',
      ''team collaboration, debugging ease, etc. Include specific impacts like '',
      [CHR 0x22],
      ''with 10,000+ users, this could save 2 seconds per request'',
      [CHR 0x22],
      '']\<newline>'',
      ''\<newline>'',
      ''**'',
      [CHR 0xE2, CHR 0x9C, CHR 0xA8],
      '' Suggested Improvement:**\<newline>'',
      ''```python\<newline>'',
      ''[Show the improved code with clear comments explaining the changes]\<newline>'',
      ''```\<newline>'',
      ''\<newline>'',
      ''**'',
      [CHR 0xF0, CHR 0x9F, CHR 0x93, CHR 0x9A],
      '' Learning Resources:**\<newline>'',
      ''- [Specific PEP-8 section, documentation, or concept link]\<newline>'',
      ''- [Additional learning resource if relevant]\<newline>'',
      ''\<newline>'',
      ''**'',
      [CHR 0xF0, CHR 0x9F, CHR 0x8E, CHR 0xAF],
      '' Pro Tip:** [One advanced insight that shows deep understanding]\<newline>'',
      ''\<newline>'',
      ''---\<newline>'',
      ''\<newline>'',
      ''**ADVANCED REQUIREMENTS:**\<newline>'',
      ''1. Adjust tone based on comment severity (harsher comments need more encouragement)\<newline>'',
      ''2. Reference the detected code patterns naturally\<newline>'',
      ''3. Provide specific performance/readability impacts\<newline>'',
      ''4. Include at least one '',
      [CHR 0x22],
      ''pro tip'',
      [CHR 0x22],
      '' that shows senior-level insight\<newline>'',
      ''5. Use emojis strategically for visual appeal and engagement\<newline>'',
      ''6. End each section with actionable next steps\<newline>'',
      ''\<newline>'',
      ''**TONE CALIBRATION:**\<newline>'',
      ''- Critical/Harsh comments: Extra encouraging, emphasize learning journey\<newline>'',
      ''- Moderate comments: Collaborative and educational\<newline>'',
      ''- Gentle comments: Build on the good observation\<newline>'',
      ''\<newline>'',
      ''Create the analysis for ALL comments now:'']"


text \<open>The loop that fills \<^verbatim>\<open>severity_analysis\<close>: one line per comment, appended in the
  order of \<^verbatim>\<open>enumerate(comments)\<close>.\<close>

definition severity_line :: "nat \<Rightarrow> string \<Rightarrow> string" where
  "severity_line i comment =
     (let severity = analyze_comment_severity comment;
          tone = get_contextual_tone severity
      in ''Comment '' @ str_nat (i + 1) @ '': '' @ severity_value severity @ '' severity - '' @ tone)"

definition severity_analysis :: "string list \<Rightarrow> string list" where
  "severity_analysis comments = map (\<lambda>(i, comment). severity_line i comment) (enumerate 0 comments)"

text \<open>The entries of \<^verbatim>\<open>comments_list\<close>: the number, a dot, and the comment between
  double quotes.\<close>

definition comment_entry :: "nat \<Rightarrow> string \<Rightarrow> string" where
  "comment_entry i comment = str_nat (i + 1) @ ''. '' @ [CHR 0x22] @ comment @ [CHR 0x22]"

definition comment_entries :: "string list \<Rightarrow> string list" where
  "comment_entries comments = map (\<lambda>(i, comment). comment_entry i comment) (enumerate 0 comments)"

definition newline :: string where
  "newline = [CHR 0x0A]"

text \<open>\<^verbatim>\<open>[k for k, v in patterns.items() if v]\<close>\<close>

definition active_patterns_of :: "(string \<times> bool) list \<Rightarrow> string list" where
  "active_patterns_of patterns = map fst (filter snd patterns)"

definition create_master_prompt :: "unicode_db \<Rightarrow> string \<Rightarrow> string list \<Rightarrow> string" where
  "create_master_prompt u code_snippet comments =
     (let patterns = detect_code_patterns u code_snippet;
          active_patterns = active_patterns_of patterns;
          comments_list = join newline (comment_entries comments);
          severity_list = join newline (severity_analysis comments)
      in master_prompt_text_1 @ code_snippet
         @ master_prompt_text_2
         @ (if active_patterns \<noteq> [] then join '', '' active_patterns
            else ''Clean basic structure'')
         @ master_prompt_text_3 @ severity_list
         @ master_prompt_text_4 @ comments_list
         @ master_prompt_text_5
         @ (case comments of [] \<Rightarrow> ''PLACEHOLDER'' | first # _ \<Rightarrow> first)
         @ master_prompt_text_6)"

section \<open>Completion collaborator\<close>

text \<open>
  What the HTTP request of \<^verbatim>\<open>call_ollama\<close> can do: answer with a status code, or raise.
  For an answer with status 200 the code reads \<^verbatim>\<open>response.json()['response']\<close>, which
  gives the text or raises in its turn. The two handlers tell a
  \<^verbatim>\<open>RequestException\<close> from any other \<^verbatim>\<open>Exception\<close>; each carries its message.
\<close>

datatype py_exception = RequestException string | OtherException string

datatype http_result =
    Answered nat "py_exception + string"   \<comment> \<open>status code, and what reading the body gives\<close>
  | Raised py_exception

fun handle_exception :: "py_exception \<Rightarrow> string" where
  "handle_exception (RequestException e) = ''Connection error: '' @ e"
| "handle_exception (OtherException e) = ''Unexpected error: '' @ e"

definition call_ollama :: "(string \<Rightarrow> http_result) \<Rightarrow> string \<Rightarrow> string" where
  "call_ollama post prompt =
     (case post prompt of
        Answered status_code body \<Rightarrow>
          (if status_code = 200 then
             (case body of Inr response \<Rightarrow> response | Inl e \<Rightarrow> handle_exception e)
           else ''API Error: '' @ str_nat status_code)
      | Raised e \<Rightarrow> handle_exception e)"

section \<open>Encouragement policy and closing summary\<close>

text \<open>The three keys of \<^verbatim>\<open>summary_prompts\<close>; \<open>level_key\<close> gives the string of the source.\<close>

datatype EncouragementLevel = STANDARD | HIGH | EXTRA_HIGH

fun level_key :: "EncouragementLevel \<Rightarrow> string" where
  "level_key EXTRA_HIGH = ''extra_high''"
| "level_key HIGH = ''high''"
| "level_key STANDARD = ''standard''"

text \<open>\<^verbatim>\<open>sum(1 for comment in comments if ... in [HARSH, CRITICAL])\<close>\<close>

definition total_severity :: "string list \<Rightarrow> nat" where
  "total_severity comments =
     length (filter (\<lambda>comment. analyze_comment_severity comment \<in> set [HARSH, CRITICAL]) comments)"

text \<open>
  The source compares the count with the floating-point product
  \<^verbatim>\<open>len(comments) * 0.6\<close>. The model compares with the exact product. The two
  comparisons agree for every list that fits in memory: the double nearest to 0.6 is
  below it by less than \<open>2.3e-17\<close>, so for a length \<open>n < 2^50\<close> the computed product
  is the integer \<open>3n/5\<close> itself when 5 divides \<open>n\<close>, and is otherwise within \<open>0.001\<close>
  of a number whose distance to every integer is at least \<open>0.2\<close>.
\<close>

definition encouragement_level :: "string list \<Rightarrow> EncouragementLevel" where
  "encouragement_level comments =
     (if real (total_severity comments) > real (length comments) * 0.6 then EXTRA_HIGH
      else if total_severity comments > 0 then HIGH
      else STANDARD)"

fun summary_prompts :: "EncouragementLevel \<Rightarrow> string" where
  "summary_prompts EXTRA_HIGH =
     ''This developer faced some tough feedback but shows solid problem-solving instincts. ''
     @ ''Focus on the growth journey and celebrate their logical thinking.''"
| "summary_prompts HIGH =
     ''This developer is on a great learning path with some excellent fundamentals. ''
     @ ''The improvements suggested will level up their skills significantly.''"
| "summary_prompts STANDARD =
     ''This developer writes clean, logical code and is ready for some advanced ''
     @ ''optimizations. Great foundation to build upon!''"

text \<open>Fixed text 1 of the f-string that \<^verbatim>\<open>create_summary_analysis\<close> returns.\<close>

definition summary_text_1 :: string where
  "summary_text_1 = concat
     [''\<newline>'',
      ''## '',
      [CHR 0xF0, CHR 0x9F, CHR 0x8C, CHR 0x9F],
      '' Overall Growth Summary & Next Steps\<newline>'',
      ''\<newline>'']"

text \<open>Fixed text 2 of the f-string that \<^verbatim>\<open>create_summary_analysis\<close> returns.\<close>

definition summary_text_2 :: string where
  "summary_text_2 = concat
     [''\<newline>'',
      ''\<newline>'',
      ''**'',
      [CHR 0xF0, CHR 0x9F, CHR 0x8E, CHR 0xAF],
      '' Key Themes from This Review:**\<newline>'',
      ''- **Code Organization**: Moving toward more Pythonic patterns\<newline>'',
      ''- **Performance Awareness**: Understanding computational complexity\<newline>'',
      ''- **Readability Focus**: Writing code that tells a story\<newline>'',
      ''\<newline>'',
      ''**'',
      [CHR 0xF0, CHR 0x9F, CHR 0x9A, CHR 0x80],
      '' Recommended Learning Path:**\<newline>'',
      ''1. **This Week**: Practice list comprehensions and boolean operations\<newline>'',
      ''2. **Next Week**: Dive deeper into Python'',
      [CHR 0x27],
      ''s built-in functions and itertools\<newline>'',
      ''3. **This Month**: Explore algorithmic complexity and optimization patterns\<newline>'',
      ''\<newline>'',
      ''**'',
      [CHR 0xF0, CHR 0x9F, CHR 0x92, CHR 0xA1],
      '' Senior Developer Insight:**\<newline>'',
      ''The patterns in this code suggest you'',
      [CHR 0x27],
      ''re thinking algorithmically, which is fantastic! The next level is thinking '',
      ''about code as communication - every variable name, every function structure '',
      ''should tell your future self (and your teammates) a clear story.\<newline>'',
      ''\<newline>'',
      ''---\<newline>'',
      ''*Remember: Every expert was once a beginner. The fact that you'',
      [CHR 0x27],
      ''re actively seeking feedback shows you'',
      [CHR 0x27],
      ''re on the path to mastery! '',
      [CHR 0xF0, CHR 0x9F, CHR 0x8C, CHR 0x9F],
      ''*\<newline>'']"


definition create_summary_analysis :: "unicode_db \<Rightarrow> string \<Rightarrow> string list \<Rightarrow> string" where
  "create_summary_analysis u code_snippet comments =
     (let patterns = detect_code_patterns u code_snippet;
          level = encouragement_level comments
      in summary_text_1 @ summary_prompts level @ summary_text_2)"

section \<open>Report composer\<close>

text \<open>Fixed text 1 of the f-string that \<^verbatim>\<open>process_review\<close> returns.\<close>

definition report_text_1 :: string where
  "report_text_1 = concat
     [''# '',
      [CHR 0xF0, CHR 0x9F, CHR 0x8C, CHR 0x9F],
      '' Empathetic Code Review Report\<newline>'',
      ''\<newline>'',
      ''*Transforming criticism into growth opportunities*\<newline>'',
      ''\<newline>'',
      ''## '',
      [CHR 0xF0, CHR 0x9F, CHR 0x93, CHR 0x9D],
      '' Original Code Under Review\<newline>'',
      ''```python\<newline>'']"

text \<open>Fixed text 2 of the f-string that \<^verbatim>\<open>process_review\<close> returns.\<close>

definition report_text_2 :: string where
  "report_text_2 = concat
     [''\<newline>'',
      ''```\<newline>'',
      ''\<newline>'']"

text \<open>Fixed text 3 of the f-string that \<^verbatim>\<open>process_review\<close> returns.\<close>

definition report_text_3 :: string where
  "report_text_3 = concat
     [''\<newline>'',
      ''\<newline>'']"

text \<open>Fixed text 4 of the f-string that \<^verbatim>\<open>process_review\<close> returns.\<close>

definition report_text_4 :: string where
  "report_text_4 = concat
     [''\<newline>'',
      ''\<newline>'',
      ''---\<newline>'',
      ''**'',
      [CHR 0xF0, CHR 0x9F, CHR 0x9B, CHR 0xA0],
      '' Generated by Advanced Empathetic Code Reviewer v2.0**\<newline>'',
      ''*Built for the '',
      [CHR 0x22],
      ''Freedom from Mundane'',
      [CHR 0x22],
      '' Hackathon*\<newline>'']"


text \<open>
  \<^verbatim>\<open>input_data\<close>: the dictionary read from the request, with the value under each of
  the two keys, or \<open>None\<close> when the key is absent.
\<close>

record input_data =
  code_snippet_key :: "string option"
  review_comments_key :: "string list option"

definition process_review ::
  "unicode_db \<Rightarrow> (string \<Rightarrow> http_result) \<Rightarrow> input_data \<Rightarrow> error + string" where
  "process_review u post data =
     (case code_snippet_key data of
        None \<Rightarrow> Inl (KeyError ''code_snippet'')
      | Some code_snippet \<Rightarrow>
          (case review_comments_key data of
             None \<Rightarrow> Inl (KeyError ''review_comments'')
           | Some review_comments \<Rightarrow>
               (let master_prompt = create_master_prompt u code_snippet review_comments;
                    ai_response = call_ollama post master_prompt;
                    summary = create_summary_analysis u code_snippet review_comments
                in Inr (report_text_1 @ code_snippet @ report_text_2 @ ai_response
                        @ report_text_3 @ summary @ report_text_4))))"

text \<open>The validation loop of \<^verbatim>\<open>main\<close> over \<^verbatim>\<open>required_keys\<close>.\<close>

definition validate_input :: "input_data \<Rightarrow> error + unit" where
  "validate_input data =
     (if code_snippet_key data = None then Inl (ValueError ''Missing required key: code_snippet'')
      else if review_comments_key data = None
        then Inl (ValueError ''Missing required key: review_comments'')
      else Inr ())"

text \<open>The \<^verbatim>\<open>try\<close> block of \<^verbatim>\<open>main\<close> between reading the request and writing the report.\<close>

definition main_review ::
  "unicode_db \<Rightarrow> (string \<Rightarrow> http_result) \<Rightarrow> input_data \<Rightarrow> error + string" where
  "main_review u post data =
     (case validate_input data of
        Inl e \<Rightarrow> Inl e
      | Inr _ \<Rightarrow> process_review u post data)"

section \<open>The summary of the variant with two engines\<close>

text \<open>
  \<^verbatim>\<open>UltimateEmpathethicReviewer.create_summary_analysis\<close> has the keyword table, the
  patterns and the thresholds of the class above, its own three paragraphs, and
  names the engine in its last lines.
\<close>

datatype AIEngine = GEMINI | OLLAMA | AUTO

fun ultimate_summary_prompts :: "EncouragementLevel \<Rightarrow> string" where
  "ultimate_summary_prompts EXTRA_HIGH =
     ''This developer faced some tough feedback but shows solid problem-solving instincts. ''
     @ ''The logical thinking is there - now it'' @ [CHR 0x27]
     @ ''s about refining the expression.''"
| "ultimate_summary_prompts HIGH =
     ''This developer is on a great learning trajectory with excellent fundamentals. ''
     @ ''These optimizations will level up their Python skills significantly.''"
| "ultimate_summary_prompts STANDARD =
     ''This developer writes clean, logical code and is ready for advanced optimizations. ''
     @ ''Excellent foundation to build upon!''"

text \<open>Fixed text 1 of the f-string that \<^verbatim>\<open>UltimateEmpathethicReviewer.create_summary_analysis\<close> returns.\<close>

definition ultimate_summary_text_1 :: string where
  "ultimate_summary_text_1 = concat
     [''\<newline>'',
      ''## '',
      [CHR 0xF0, CHR 0x9F, CHR 0x8C, CHR 0x9F],
      '' Overall Growth Summary & Next Steps\<newline>'',
      ''\<newline>'']"

text \<open>Fixed text 2 of the f-string that \<^verbatim>\<open>UltimateEmpathethicReviewer.create_summary_analysis\<close> returns.\<close>

definition ultimate_summary_text_2 :: string where
  "ultimate_summary_text_2 = concat
     [''\<newline>'',
      ''\<newline>'',
      ''**'',
      [CHR 0xF0, CHR 0x9F, CHR 0x8E, CHR 0xAF],
      '' Key Learning Themes:**\<newline>'',
      ''- **Pythonic Patterns**: Embracing list comprehensions and built-in functions\<newline>'',
      ''- **Performance Awareness**: Understanding when efficiency matters\<newline>'',
      ''- **Code Readability**: Writing self-documenting code\<newline>'',
      ''\<newline>'',
      ''**'',
      [CHR 0xF0, CHR 0x9F, CHR 0x9A, CHR 0x80],
      '' Personalized Learning Path:**\<newline>'',
      ''1. **This Week**: Master list comprehensions and boolean operations\<newline>'',
      ''2. **Next 2 Weeks**: Explore Python'',
      [CHR 0x27],
      ''s itertools and functional programming features  \<newline>'',
      ''3. **This Month**: Study algorithmic complexity and profiling techniques\<newline>'',
      ''\<newline>'',
      ''**'',
      [CHR 0xF0, CHR 0x9F, CHR 0x92, CHR 0xA1],
      '' Senior Developer Wisdom:**\<newline>'',
      ''The fact that you'',
      [CHR 0x27],
      ''re actively seeking feedback shows tremendous growth mindset! These patterns '',
      ''suggest you think algorithmically (fantastic!) - the next level is thinking '',
      ''about code as communication. Every line should tell a story to your future '',
      ''self and teammates.\<newline>'',
      ''\<newline>'',
      ''**'',
      [CHR 0xF0, CHR 0x9F, CHR 0x8F, CHR 0x86],
      '' You'',
      [CHR 0x27],
      ''re Ready For:**\<newline>'',
      ''- Contributing to open source Python projects\<newline>'',
      ''- Mentoring other developers on fundamentals\<newline>'',
      ''- Taking on more complex algorithmic challenges\<newline>'',
      ''\<newline>'',
      ''---\<newline>'',
      ''*'',
      [CHR 0x22],
      ''Every expert was once a beginner. Every pro was once an amateur. Every icon '',
      ''was once an unknown.'',
      [CHR 0x22],
      '' - Robin Sharma*\<newline>'',
      ''\<newline>'',
      ''*Generated by Ultimate Empathetic Code Reviewer v3.0 | Powered by '']"

text \<open>Fixed text 3 of the f-string that \<^verbatim>\<open>UltimateEmpathethicReviewer.create_summary_analysis\<close> returns.\<close>

definition ultimate_summary_text_3 :: string where
  "ultimate_summary_text_3 = concat
     [''*  \<newline>'',
      ''*Built for developers, by developers* '',
      [CHR 0xE2, CHR 0x9C, CHR 0xA8],
      ''\<newline>'']"

definition ultimate_create_summary_analysis ::
  "unicode_db \<Rightarrow> AIEngine \<Rightarrow> string \<Rightarrow> string list \<Rightarrow> string" where
  "ultimate_create_summary_analysis u engine code_snippet comments =
     (let patterns = detect_code_patterns u code_snippet;
          level = encouragement_level comments;
          engine_info = (if engine = GEMINI then ''Google Gemini'' else ''Local Llama 3.1'')
      in ultimate_summary_text_1 @ ultimate_summary_prompts level
         @ ultimate_summary_text_2 @ engine_info @ ultimate_summary_text_3)"

section \<open>Notions used to state the properties\<close>

text \<open>The text that \<^verbatim>\<open>create_master_prompt\<close> puts where the patterns go.\<close>

definition patterns_text :: "unicode_db \<Rightarrow> string \<Rightarrow> string" where
  "patterns_text u code_snippet =
     (let active_patterns = active_patterns_of (detect_code_patterns u code_snippet)
      in if active_patterns \<noteq> [] then join '', '' active_patterns else ''Clean basic structure'')"

definition first_comment_text :: "string list \<Rightarrow> string" where
  "first_comment_text comments = (case comments of [] \<Rightarrow> ''PLACEHOLDER'' | first # _ \<Rightarrow> first)"

text \<open>Whether two digits stand in a row among the characters.\<close>

fun has_digit_run :: "unicode_db \<Rightarrow> uchar list \<Rightarrow> bool" where
  "has_digit_run u (x # y # ys) = (is_digit u x \<and> is_digit u y \<or> has_digit_run u (y # ys))"
| "has_digit_run u _ = False"

text \<open>The flag that \<^verbatim>\<open>detect_code_patterns\<close> reports under a pattern name.\<close>

definition pattern_flag :: "unicode_db \<Rightarrow> string \<Rightarrow> string \<Rightarrow> bool option" where
  "pattern_flag u pattern_name code = map_of (detect_code_patterns u code) pattern_name"

text \<open>
  A table with a few entries of Unicode, to run examples: the Arabic-Indic digits
  (U+0660 to U+0669) as decimal digits, these and the letter e with acute accent
  (U+00E9) as alphanumeric, the no-break space (U+00A0) as white space.
\<close>

definition arabic_indic_digits :: "uchar list" where
  "arabic_indic_digits =
     map (\<lambda>b. [CHR 0xD9, b])
       [CHR 0xA0, CHR 0xA1, CHR 0xA2, CHR 0xA3, CHR 0xA4, CHR 0xA5, CHR 0xA6, CHR 0xA7,
        CHR 0xA8, CHR 0xA9]"

definition sample_unicode :: unicode_db where
  "sample_unicode =
     \<lparr>uc_decimal = (\<lambda>x. x \<in> set arabic_indic_digits),
      uc_alnum = (\<lambda>x. x \<in> set ([CHR 0xC3, CHR 0xA9] # arabic_indic_digits)),
      uc_space = (\<lambda>x. x = [CHR 0xC2, CHR 0xA0])\<rparr>"

text \<open>A completion service that cannot be reached.\<close>

definition unreachable_service :: "string \<Rightarrow> http_result" where
  "unreachable_service prompt = Raised (RequestException ''connection refused'')"

section \<open>Properties of the severity classifier\<close>

lemma keywords_of_simps:
  "keywords_of CRITICAL = [''terrible'', ''awful'', ''horrible'', ''stupid'', ''idiotic'', ''garbage'']"
  "keywords_of HARSH = [''bad'', ''wrong'', ''inefficient'', ''poor'', ''sloppy'', ''messy'']"
  "keywords_of MODERATE = [''should'', ''could'', ''consider'', ''might want to'', ''try'']"
  "keywords_of GENTLE = [''perhaps'', ''maybe'', ''suggestion'', ''alternatively'']"
  by (simp_all add: keywords_of_def severity_keywords_def)

text \<open>The loop over the four entries, unrolled: the first set with a match decides.\<close>

lemma analyze_first_match:
  "analyze_comment_severity c =
     (if has_keyword CRITICAL c then CRITICAL
      else if has_keyword HARSH c then HARSH
      else if has_keyword MODERATE c then MODERATE
      else GENTLE)"
  unfolding analyze_comment_severity_def has_keyword_def keywords_of_simps Let_def
  by (simp add: severity_keywords_def)

lemmas eval_has_keyword =
  has_keyword_def keywords_of_simps any_keyword_in_def lower_def lower_char_def
  sublist_Cons_right

text \<open>
  Claim C7. The classifier returns a severity for every text, and a comment in which
  no keyword of the four sets occurs (case aside) is classified GENTLE; so is the
  empty comment.
\<close>

theorem analyze_default_gentle:
  "((\<forall>s. \<not> has_keyword s c) \<longrightarrow> analyze_comment_severity c = GENTLE)
   \<and> analyze_comment_severity [] = GENTLE
   \<and> (\<exists>s. analyze_comment_severity c = s)"
proof -
  have "(\<forall>s. \<not> has_keyword s c) \<longrightarrow> analyze_comment_severity c = GENTLE"
    by (simp add: analyze_first_match)
  moreover have "analyze_comment_severity [] = GENTLE"
    by (simp add: analyze_first_match eval_has_keyword)
  ultimately show ?thesis by simp
qed

theorem analyze_default_gentle_witness:
  "(\<forall>s. \<not> has_keyword s ''Looks fine to me'')
   \<and> analyze_comment_severity ''Looks fine to me'' = GENTLE"
proof -
  have none: "\<not> has_keyword s ''Looks fine to me''" for s
    by (cases s) (simp_all add: eval_has_keyword)
  then show ?thesis
    using analyze_default_gentle [of "''Looks fine to me''"] by blast
qed

lemma lower_keyword: "kw \<in> set (keywords_of s) \<Longrightarrow> lower kw = kw"
  by (cases s) (auto simp: keywords_of_simps lower_def lower_char_def)

text \<open>A keyword that occurs in the comment as it is written occurs in its lower-case
  form too.\<close>

lemma literal_keyword:
  assumes "kw \<in> set (keywords_of s)" and "sublist kw c"
  shows "has_keyword s c"
proof -
  have "sublist (lower kw) (lower c)"
    unfolding lower_def using assms(2) by (rule map_mono_sublist)
  then have "sublist kw (lower c)" using lower_keyword [OF assms(1)] by simp
  then show ?thesis
    using assms(1) by (auto simp: has_keyword_def any_keyword_in_def list_ex_iff)
qed

text \<open>
  Claim C1. The four sets are tried in the order CRITICAL, HARSH, MODERATE, GENTLE and
  the first set with a match decides. So for a comment that holds a keyword of a
  harsher set \<open>s1\<close> and a keyword of a milder set \<open>s2\<close>, the result is a severity whose
  set matches, no set that matches is harsher than the result, the result is \<open>s1\<close>
  unless a set harsher still matches too, and it is never the milder \<open>s2\<close>. A comment
  with a CRITICAL keyword is CRITICAL whatever else it holds.
\<close>

theorem analyze_harsher_wins:
  assumes "has_keyword s1 c" and "has_keyword s2 c" and "harshness s2 < harshness s1"
  shows "has_keyword (analyze_comment_severity c) c
    \<and> (\<forall>s. has_keyword s c \<longrightarrow> harshness s \<le> harshness (analyze_comment_severity c))
    \<and> ((\<forall>s. harshness s1 < harshness s \<longrightarrow> \<not> has_keyword s c)
         \<longrightarrow> analyze_comment_severity c = s1)
    \<and> analyze_comment_severity c \<noteq> s2
    \<and> (s1 = CRITICAL \<longrightarrow> analyze_comment_severity c = CRITICAL)"
proof (intro conjI allI impI)
  show m: "has_keyword (analyze_comment_severity c) c"
    using assms(1) by (cases s1) (auto simp: analyze_first_match)
  show h: "harshness s \<le> harshness (analyze_comment_severity c)" if "has_keyword s c" for s
    using that by (cases s) (auto simp: analyze_first_match)
  show "analyze_comment_severity c = s1"
    if "\<forall>s. harshness s1 < harshness s \<longrightarrow> \<not> has_keyword s c"
  proof -
    have "harshness s1 \<le> harshness (analyze_comment_severity c)"
      using h assms(1) by blast
    moreover have "\<not> harshness s1 < harshness (analyze_comment_severity c)"
      using that m by blast
    ultimately have "harshness (analyze_comment_severity c) = harshness s1" by simp
    then show ?thesis by (cases s1; cases "analyze_comment_severity c") simp_all
  qed
  show "analyze_comment_severity c \<noteq> s2"
    using h [OF assms(1)] assms(3) by auto
  show "analyze_comment_severity c = CRITICAL" if "s1 = CRITICAL"
    using that assms(1) by (simp add: analyze_first_match)
qed

theorem analyze_harsher_wins_witness:
  "has_keyword CRITICAL ''You should fix this TERRIBLE code''
   \<and> has_keyword MODERATE ''You should fix this TERRIBLE code''
   \<and> harshness MODERATE < harshness CRITICAL
   \<and> analyze_comment_severity ''You should fix this TERRIBLE code'' = CRITICAL"
proof -
  have a: "has_keyword CRITICAL ''You should fix this TERRIBLE code''"
    by (simp add: eval_has_keyword)
  have b: "has_keyword MODERATE ''You should fix this TERRIBLE code''"
    by (simp add: eval_has_keyword)
  have c: "harshness MODERATE < harshness CRITICAL" by simp
  show ?thesis using a b c analyze_harsher_wins [OF a b c] by simp
qed

section \<open>Properties of the composer\<close>

lemma sublist_trans: "sublist xs ys \<Longrightarrow> sublist ys zs \<Longrightarrow> sublist xs zs"
proof -
  assume "sublist xs ys" and "sublist ys zs"
  then obtain a b p q where "ys = a @ xs @ b" and "zs = p @ ys @ q"
    by (auto simp: sublist_def)
  then have "zs = (p @ a) @ xs @ (b @ q)" by simp
  then show ?thesis unfolding sublist_def by blast
qed

lemma sublist_join: "i < length xs \<Longrightarrow> sublist (xs ! i) (join sep xs)"
proof (induction sep xs arbitrary: i rule: join.induct)
  case (3 sep x y ys)
  show ?case
  proof (cases i)
    case 0
    then show ?thesis by simp
  next
    case (Suc k)
    then have "sublist ((y # ys) ! k) (join sep (y # ys))" using 3 by simp
    then obtain p q where "join sep (y # ys) = p @ (y # ys) ! k @ q"
      by (auto simp: sublist_def)
    then have "join sep (x # y # ys) = (x @ sep @ p) @ (y # ys) ! k @ q" by simp
    then have "sublist ((y # ys) ! k) (join sep (x # y # ys))"
      unfolding sublist_def by blast
    then show ?thesis using Suc by simp
  qed
qed simp_all

text \<open>The parts of a joined text come in the order of the list.\<close>

lemma join_order:
  "i < j \<Longrightarrow> j < length xs \<Longrightarrow> \<exists>a b c. join sep xs = a @ xs ! i @ b @ xs ! j @ c"
proof (induction sep xs arbitrary: i j rule: join.induct)
  case (3 sep x y ys)
  obtain k where j: "j = Suc k" using 3(2) by (cases j) auto
  have k: "k < length (y # ys)" using 3(3) j by simp
  show ?case
  proof (cases i)
    case 0
    have "sublist ((y # ys) ! k) (join sep (y # ys))"
      using k by (rule sublist_join)
    then obtain p q where "join sep (y # ys) = p @ (y # ys) ! k @ q"
      by (auto simp: sublist_def)
    then have "join sep (x # y # ys) = [] @ (x # y # ys) ! i @ (sep @ p) @ (x # y # ys) ! j @ q"
      using 0 j by simp
    then show ?thesis by blast
  next
    case (Suc l)
    have "l < k" using 3(2) Suc j by simp
    then have "\<exists>a b c. join sep (y # ys) = a @ (y # ys) ! l @ b @ (y # ys) ! k @ c"
      using k by (rule "3.IH")
    then obtain a b c where "join sep (y # ys) = a @ (y # ys) ! l @ b @ (y # ys) ! k @ c"
      by blast
    then have "join sep (x # y # ys) = (x @ sep @ a) @ (x # y # ys) ! i @ b @ (x # y # ys) ! j @ c"
      using Suc j by simp
    then show ?thesis by blast
  qed
qed simp_all

lemma length_severity_analysis: "length (severity_analysis comments) = length comments"
  by (simp add: severity_analysis_def)

lemma nth_severity_analysis:
  "i < length comments \<Longrightarrow> severity_analysis comments ! i = severity_line i (comments ! i)"
  by (simp add: severity_analysis_def nth_enumerate_eq)

lemma length_comment_entries: "length (comment_entries comments) = length comments"
  by (simp add: comment_entries_def)

lemma nth_comment_entries:
  "i < length comments \<Longrightarrow> comment_entries comments ! i = comment_entry i (comments ! i)"
  by (simp add: comment_entries_def nth_enumerate_eq)

lemma create_master_prompt_parts:
  "create_master_prompt u code comments =
     master_prompt_text_1 @ code @ master_prompt_text_2 @ patterns_text u code
     @ master_prompt_text_3 @ join newline (severity_analysis comments)
     @ master_prompt_text_4 @ join newline (comment_entries comments)
     @ master_prompt_text_5 @ first_comment_text comments @ master_prompt_text_6"
  by (simp add: create_master_prompt_def patterns_text_def first_comment_text_def Let_def)

lemma prompt_has_code: "sublist code (create_master_prompt u code comments)"
  unfolding create_master_prompt_parts by (rule sublist_appendI)

lemma prompt_has_severity_list:
  "sublist (join newline (severity_analysis comments)) (create_master_prompt u code comments)"
proof -
  have "create_master_prompt u code comments =
      (master_prompt_text_1 @ code @ master_prompt_text_2 @ patterns_text u code
       @ master_prompt_text_3) @ join newline (severity_analysis comments)
      @ (master_prompt_text_4 @ join newline (comment_entries comments)
         @ master_prompt_text_5 @ first_comment_text comments @ master_prompt_text_6)"
    by (simp add: create_master_prompt_parts)
  then show ?thesis unfolding sublist_def by blast
qed

lemma prompt_has_comments_list:
  "\<exists>a b. create_master_prompt u code comments = a @ join newline (comment_entries comments) @ b"
proof -
  have "create_master_prompt u code comments =
      (master_prompt_text_1 @ code @ master_prompt_text_2 @ patterns_text u code
       @ master_prompt_text_3 @ join newline (severity_analysis comments)
       @ master_prompt_text_4) @ join newline (comment_entries comments)
      @ (master_prompt_text_5 @ first_comment_text comments @ master_prompt_text_6)"
    by (simp add: create_master_prompt_parts)
  then show ?thesis by blast
qed

lemma master_prompt_text_2_label:
  "master_prompt_text_2 = ''\<newline>```\<newline>\<newline>'' @ ''**DETECTED PATTERNS:** ''"
  by (simp add: master_prompt_text_2_def)

lemma prompt_has_patterns:
  "sublist (''**DETECTED PATTERNS:** '' @ patterns_text u code) (create_master_prompt u code comments)"
proof -
  have "create_master_prompt u code comments =
      (master_prompt_text_1 @ code @ ''\<newline>```\<newline>\<newline>'')
      @ (''**DETECTED PATTERNS:** '' @ patterns_text u code)
      @ (master_prompt_text_3 @ join newline (severity_analysis comments)
         @ master_prompt_text_4 @ join newline (comment_entries comments)
         @ master_prompt_text_5 @ first_comment_text comments @ master_prompt_text_6)"
    unfolding create_master_prompt_parts master_prompt_text_2_label by simp
  then show ?thesis unfolding sublist_def by blast
qed

text \<open>
  Claim C9. The composer derives one severity line and one list entry per input
  comment: both lists have the length of the input, their entry at index \<open>i\<close> is
  made from comment \<open>i\<close> of the input and carries the number \<open>i + 1\<close>, and both go into
  the prompt joined in that order.
\<close>

theorem classified_in_order:
  "length (severity_analysis comments) = length comments
   \<and> length (comment_entries comments) = length comments
   \<and> (\<forall>i < length comments.
         severity_analysis comments ! i =
           ''Comment '' @ str_nat (i + 1) @ '': ''
           @ severity_value (analyze_comment_severity (comments ! i)) @ '' severity - ''
           @ get_contextual_tone (analyze_comment_severity (comments ! i))
         \<and> comment_entries comments ! i =
           str_nat (i + 1) @ ''. '' @ [CHR 0x22] @ comments ! i @ [CHR 0x22])
   \<and> (\<exists>a b c. create_master_prompt u code comments =
         a @ join newline (severity_analysis comments)
         @ b @ join newline (comment_entries comments) @ c)"
proof -
  have "\<exists>a b c. create_master_prompt u code comments =
         a @ join newline (severity_analysis comments)
         @ b @ join newline (comment_entries comments) @ c"
  proof -
    have "create_master_prompt u code comments =
        (master_prompt_text_1 @ code @ master_prompt_text_2 @ patterns_text u code
         @ master_prompt_text_3) @ join newline (severity_analysis comments)
        @ master_prompt_text_4 @ join newline (comment_entries comments)
        @ (master_prompt_text_5 @ first_comment_text comments @ master_prompt_text_6)"
      by (simp add: create_master_prompt_parts)
    then show ?thesis by blast
  qed
  then show ?thesis
    by (simp add: length_severity_analysis length_comment_entries nth_severity_analysis
        nth_comment_entries severity_line_def comment_entry_def Let_def)
qed

theorem classified_in_order_witness:
  "severity_analysis [''This is terrible code.'', ''maybe rename u''] ! 1 =
     ''Comment 2: gentle severity - Nice suggestion! Let'' @ [CHR 0x27] @ ''s explore this further''
   \<and> comment_entries [''This is terrible code.'', ''maybe rename u''] ! 0 =
     ''1. '' @ [CHR 0x22] @ ''This is terrible code.'' @ [CHR 0x22]"
proof -
  let ?cs = "[''This is terrible code.'', ''maybe rename u'']"
  have g: "analyze_comment_severity ''maybe rename u'' = GENTLE"
    by (simp add: analyze_first_match eval_has_keyword)
  have n: "str_nat (0 + 1) = ''1''" "str_nat (1 + 1) = ''2''"
    by (simp_all add: str_nat.simps digit_char_def)
  have t: "get_contextual_tone GENTLE =
      ''Nice suggestion! Let'' @ [CHR 0x27] @ ''s explore this further''"
    by (simp add: get_contextual_tone_def dict_get_def tone_map_def)
  have all: "\<forall>i < length ?cs.
         severity_analysis ?cs ! i =
           ''Comment '' @ str_nat (i + 1) @ '': ''
           @ severity_value (analyze_comment_severity (?cs ! i)) @ '' severity - ''
           @ get_contextual_tone (analyze_comment_severity (?cs ! i))
         \<and> comment_entries ?cs ! i =
           str_nat (i + 1) @ ''. '' @ [CHR 0x22] @ ?cs ! i @ [CHR 0x22]"
    using classified_in_order [where comments = ?cs and code = "''x''" and u = sample_unicode]
    by blast
  have "severity_analysis ?cs ! 1 =
           ''Comment '' @ str_nat (1 + 1) @ '': ''
           @ severity_value (analyze_comment_severity (?cs ! 1)) @ '' severity - ''
           @ get_contextual_tone (analyze_comment_severity (?cs ! 1))"
    using all by simp
  moreover have "comment_entries ?cs ! 0 =
           str_nat (0 + 1) @ ''. '' @ [CHR 0x22] @ ?cs ! 0 @ [CHR 0x22]"
    using all by simp
  ultimately show ?thesis
    unfolding n by (simp add: g t)
qed

lemma active_patterns_iff:
  "name \<in> set (active_patterns_of (detect_code_patterns u code)) \<longleftrightarrow>
     (\<exists>regex. (name, regex) \<in> set code_patterns \<and> re_search u regex code)"
  by (force simp: active_patterns_of_def detect_code_patterns_def)

lemma sublist_entry:
  assumes "i < length comments"
  shows "sublist (comment_entry i (comments ! i)) (create_master_prompt u code comments)"
proof -
  have "sublist (comment_entries comments ! i) (join newline (comment_entries comments))"
    using assms by (intro sublist_join) (simp add: length_comment_entries)
  moreover have "sublist (join newline (comment_entries comments))
      (create_master_prompt u code comments)"
    using prompt_has_comments_list [of u code comments] unfolding sublist_def by blast
  ultimately show ?thesis
    using assms by (metis sublist_trans nth_comment_entries)
qed

lemma sublist_severity_line:
  assumes "i < length comments"
  shows "sublist (severity_line i (comments ! i)) (create_master_prompt u code comments)"
proof -
  have "sublist (severity_analysis comments ! i) (join newline (severity_analysis comments))"
    using assms by (intro sublist_join) (simp add: length_severity_analysis)
  then show ?thesis
    using assms prompt_has_severity_list [of comments u code]
    by (metis sublist_trans nth_severity_analysis)
qed

lemma entries_in_order:
  assumes "i < j" and "j < length comments"
  shows "\<exists>a b c. create_master_prompt u code comments =
     a @ comment_entry i (comments ! i) @ b @ comment_entry j (comments ! j) @ c"
proof -
  have "\<exists>a b c. join newline (comment_entries comments) =
      a @ comment_entries comments ! i @ b @ comment_entries comments ! j @ c"
    using assms by (intro join_order) (simp_all add: length_comment_entries)
  then obtain a b c where "join newline (comment_entries comments) =
      a @ comment_entry i (comments ! i) @ b @ comment_entry j (comments ! j) @ c"
    using assms by (auto simp: nth_comment_entries)
  moreover obtain p q where
    "create_master_prompt u code comments = p @ join newline (comment_entries comments) @ q"
    using prompt_has_comments_list by blast
  ultimately have "create_master_prompt u code comments =
      (p @ a) @ comment_entry i (comments ! i) @ b @ comment_entry j (comments ! j) @ (c @ q)"
    by simp
  then show ?thesis by blast
qed

lemma sublist_active_name:
  assumes "name \<in> set (active_patterns_of (detect_code_patterns u code))"
  shows "sublist name (create_master_prompt u code comments)"
proof -
  let ?active = "active_patterns_of (detect_code_patterns u code)"
  obtain k where k: "k < length ?active" "?active ! k = name"
    using assms by (auto simp: in_set_conv_nth)
  have ne: "?active \<noteq> []" using assms by auto
  have "sublist name (join '', '' ?active)"
    using sublist_join [OF k(1), of "'', ''"] k(2) by simp
  then have "sublist name (patterns_text u code)"
    using ne by (simp add: patterns_text_def Let_def)
  moreover have "sublist (patterns_text u code) (create_master_prompt u code comments)"
  proof -
    have "create_master_prompt u code comments =
        (master_prompt_text_1 @ code @ master_prompt_text_2) @ patterns_text u code
        @ (master_prompt_text_3 @ join newline (severity_analysis comments)
           @ master_prompt_text_4 @ join newline (comment_entries comments)
           @ master_prompt_text_5 @ first_comment_text comments @ master_prompt_text_6)"
      by (simp add: create_master_prompt_parts)
    then show ?thesis unfolding sublist_def by blast
  qed
  ultimately show ?thesis by (rule sublist_trans)
qed

text \<open>
  Claim C4. For a non-empty comment list the prompt holds the snippet as it is, every
  comment as it is between double quotes after its number \<open>i + 1\<close>, the entries in
  the order of the input, one line with severity and tone per comment, and after the
  label of the patterns either the names of the active patterns, joined by commas,
  or the marker \<^verbatim>\<open>Clean basic structure\<close> when no pattern is active. The active
  patterns are those whose regular expression is found in the snippet.
\<close>

theorem master_prompt_contents:
  assumes "comments \<noteq> []"
  shows "sublist code (create_master_prompt u code comments)
    \<and> (\<forall>i < length comments.
          sublist (str_nat (i + 1) @ ''. '' @ [CHR 0x22] @ comments ! i @ [CHR 0x22])
            (create_master_prompt u code comments))
    \<and> (\<forall>i j. i < j \<and> j < length comments \<longrightarrow>
          (\<exists>a b c. create_master_prompt u code comments =
             a @ comment_entry i (comments ! i) @ b @ comment_entry j (comments ! j) @ c))
    \<and> (\<forall>i < length comments.
          sublist (''Comment '' @ str_nat (i + 1) @ '': ''
                   @ severity_value (analyze_comment_severity (comments ! i))
                   @ '' severity - ''
                   @ get_contextual_tone (analyze_comment_severity (comments ! i)))
            (create_master_prompt u code comments))
    \<and> (active_patterns_of (detect_code_patterns u code) = [] \<longrightarrow>
          sublist ''**DETECTED PATTERNS:** Clean basic structure''
            (create_master_prompt u code comments))
    \<and> (active_patterns_of (detect_code_patterns u code) \<noteq> [] \<longrightarrow>
          sublist (''**DETECTED PATTERNS:** ''
                   @ join '', '' (active_patterns_of (detect_code_patterns u code)))
            (create_master_prompt u code comments)
          \<and> (\<forall>name \<in> set (active_patterns_of (detect_code_patterns u code)).
                sublist name (create_master_prompt u code comments)))
    \<and> (\<forall>name. name \<in> set (active_patterns_of (detect_code_patterns u code)) \<longleftrightarrow>
          (\<exists>regex. (name, regex) \<in> set code_patterns \<and> re_search u regex code))
    \<and> sublist (hd comments) (create_master_prompt u code comments)"
proof (intro conjI allI impI ballI)
  show "sublist code (create_master_prompt u code comments)"
    by (rule prompt_has_code)
  show "sublist (str_nat (i + 1) @ ''. '' @ [CHR 0x22] @ comments ! i @ [CHR 0x22])
      (create_master_prompt u code comments)" if "i < length comments" for i
    using sublist_entry [OF that, of u code] by (simp add: comment_entry_def)
  show "\<exists>a b c. create_master_prompt u code comments =
      a @ comment_entry i (comments ! i) @ b @ comment_entry j (comments ! j) @ c"
    if "i < j \<and> j < length comments" for i j
    using that entries_in_order by blast
  show "sublist (''Comment '' @ str_nat (i + 1) @ '': ''
                   @ severity_value (analyze_comment_severity (comments ! i))
                   @ '' severity - ''
                   @ get_contextual_tone (analyze_comment_severity (comments ! i)))
      (create_master_prompt u code comments)" if "i < length comments" for i
    using sublist_severity_line [OF that, of u code] by (simp add: severity_line_def Let_def)
  show "sublist ''**DETECTED PATTERNS:** Clean basic structure''
      (create_master_prompt u code comments)"
    if "active_patterns_of (detect_code_patterns u code) = []"
    using prompt_has_patterns [of u code comments] that
    by (simp add: patterns_text_def Let_def)
  show "sublist (''**DETECTED PATTERNS:** ''
                   @ join '', '' (active_patterns_of (detect_code_patterns u code)))
      (create_master_prompt u code comments)"
    if "active_patterns_of (detect_code_patterns u code) \<noteq> []"
    using prompt_has_patterns [of u code comments] that
    by (simp add: patterns_text_def Let_def)
  show "sublist name (create_master_prompt u code comments)"
    if "name \<in> set (active_patterns_of (detect_code_patterns u code))" for name
    using that by (rule sublist_active_name)
  show "name \<in> set (active_patterns_of (detect_code_patterns u code)) \<longleftrightarrow>
      (\<exists>regex. (name, regex) \<in> set code_patterns \<and> re_search u regex code)" for name
    by (rule active_patterns_iff)
  show "sublist (hd comments) (create_master_prompt u code comments)"
  proof -
    have "create_master_prompt u code comments =
        (master_prompt_text_1 @ code @ master_prompt_text_2 @ patterns_text u code
         @ master_prompt_text_3 @ join newline (severity_analysis comments)
         @ master_prompt_text_4 @ join newline (comment_entries comments)
         @ master_prompt_text_5) @ hd comments @ master_prompt_text_6"
      using assms
      by (cases comments) (simp_all add: create_master_prompt_parts first_comment_text_def)
    then show ?thesis unfolding sublist_def by blast
  qed
qed

theorem master_prompt_contents_witness:
  "[''Variable u is a bad name.''] \<noteq> []
   \<and> sublist ''if u == True:'' (create_master_prompt sample_unicode ''if u == True:'' [''Variable u is a bad name.''])
   \<and> sublist (''1. '' @ [CHR 0x22] @ ''Variable u is a bad name.'' @ [CHR 0x22])
        (create_master_prompt sample_unicode ''if u == True:'' [''Variable u is a bad name.''])"
proof -
  let ?cs = "[''Variable u is a bad name.'']"
  have ne: "?cs \<noteq> []" by simp
  have n: "str_nat (0 + 1) = ''1''"
    by (simp add: str_nat.simps digit_char_def)
  note facts = master_prompt_contents [OF ne, where code = "''if u == True:''" and u = sample_unicode]
  have "sublist ''if u == True:'' (create_master_prompt sample_unicode ''if u == True:'' ?cs)"
    using facts by blast
  moreover have "\<forall>i < length ?cs.
      sublist (str_nat (i + 1) @ ''. '' @ [CHR 0x22] @ ?cs ! i @ [CHR 0x22])
        (create_master_prompt sample_unicode ''if u == True:'' ?cs)"
    using facts by blast
  then have "sublist (str_nat (0 + 1) @ ''. '' @ [CHR 0x22] @ ?cs ! 0 @ [CHR 0x22])
        (create_master_prompt sample_unicode ''if u == True:'' ?cs)"
    by simp
  then have "sublist (''1. '' @ [CHR 0x22] @ ''Variable u is a bad name.'' @ [CHR 0x22])
        (create_master_prompt sample_unicode ''if u == True:'' ?cs)"
    unfolding n by simp
  ultimately show ?thesis by simp
qed

section \<open>Properties of the encouragement policy\<close>



text \<open>
  Claim C10. The closing summary does not depend on the snippet: the pattern flags
  computed from it are not used. For both variants the summary is the same for any
  two snippets, and two comment lists with the same severities, comment by comment,
  give the same summary.
\<close>

theorem summary_independent_of_snippet:
  "create_summary_analysis u s1 comments = create_summary_analysis u s2 comments
   \<and> ultimate_create_summary_analysis u engine s1 comments =
       ultimate_create_summary_analysis u engine s2 comments
   \<and> (map analyze_comment_severity comments = map analyze_comment_severity comments' \<longrightarrow>
        create_summary_analysis u s1 comments = create_summary_analysis u s2 comments')"
proof -
  have "encouragement_level comments = encouragement_level comments'"
    if eq: "map analyze_comment_severity comments = map analyze_comment_severity comments'"
  proof -
    have t: "total_severity cs =
        length (filter (\<lambda>s. s \<in> set [HARSH, CRITICAL]) (map analyze_comment_severity cs))" for cs
      by (simp add: total_severity_def filter_map comp_def)
    have "length comments = length comments'"
      using eq by (rule map_eq_imp_length_eq)
    moreover have "total_severity comments = total_severity comments'"
      unfolding t eq ..
    ultimately show ?thesis by (simp add: encouragement_level_def)
  qed
  then show ?thesis
    by (simp add: create_summary_analysis_def ultimate_create_summary_analysis_def Let_def)
qed

theorem summary_independent_of_snippet_witness:
  "map analyze_comment_severity [''Bad naming.''] = map analyze_comment_severity [''Wrong loop.'']
   \<and> create_summary_analysis sample_unicode ''x = 10'' [''Bad naming.'']
       = create_summary_analysis sample_unicode ''for a in b:'' [''Wrong loop.'']"
proof -
  have eq: "map analyze_comment_severity [''Bad naming.'']
      = map analyze_comment_severity [''Wrong loop.'']"
    by (simp add: analyze_first_match eval_has_keyword)
  then show ?thesis
    using summary_independent_of_snippet
      [where ?s1.0 = "''x = 10''" and comments = "[''Bad naming.'']" and ?s2.0 = "''for a in b:''"
         and engine = GEMINI and comments' = "[''Wrong loop.'']" and u = sample_unicode]
    by blast
qed

section \<open>Empty comment lists\<close>

text \<open>
  Claim C3, as the code has it. A review whose comment list is empty does not fail:
  the validation of the input only asks that the two keys are present (a missing key
  is a \<^verbatim>\<open>ValueError\<close> there), the encouragement policy on no comments gives STANDARD,
  the prompt names \<^verbatim>\<open>PLACEHOLDER\<close> in the place of the first comment, and the report
  is produced with the STANDARD paragraph, whatever the completion service does.
\<close>

theorem empty_comments_accepted:
  "encouragement_level [] = STANDARD
   \<and> validate_input \<lparr>code_snippet_key = Some code, review_comments_key = Some []\<rparr> = Inr ()
   \<and> sublist ''PLACEHOLDER'' (create_master_prompt u code [])
   \<and> main_review u post \<lparr>code_snippet_key = Some code, review_comments_key = Some []\<rparr> =
       Inr (report_text_1 @ code @ report_text_2
            @ call_ollama post (create_master_prompt u code [])
            @ report_text_3
            @ summary_text_1 @ summary_prompts STANDARD @ summary_text_2
            @ report_text_4)
   \<and> validate_input \<lparr>code_snippet_key = Some code, review_comments_key = None\<rparr> =
       Inl (ValueError ''Missing required key: review_comments'')
   \<and> validate_input \<lparr>code_snippet_key = None, review_comments_key = cs\<rparr> =
       Inl (ValueError ''Missing required key: code_snippet'')"
proof -
  have l: "encouragement_level [] = STANDARD"
    by (simp add: encouragement_level_def total_severity_def)
  have p: "sublist ''PLACEHOLDER'' (create_master_prompt u code [])"
  proof -
    have "create_master_prompt u code [] =
        (master_prompt_text_1 @ code @ master_prompt_text_2 @ patterns_text u code
         @ master_prompt_text_3 @ join newline (severity_analysis [])
         @ master_prompt_text_4 @ join newline (comment_entries [])
         @ master_prompt_text_5) @ ''PLACEHOLDER'' @ master_prompt_text_6"
      by (simp add: create_master_prompt_parts first_comment_text_def)
    then show ?thesis unfolding sublist_def by blast
  qed
  show ?thesis
    using l p
    by (simp add: validate_input_def main_review_def process_review_def
        create_summary_analysis_def Let_def)
qed

text \<open>The claim as it is written fails: with no comments the review of a snippet ends
  in a report, not in an error, and the policy returns a level.\<close>

theorem empty_comments_counterexample:
  "\<not> isl (main_review sample_unicode unreachable_service
            \<lparr>code_snippet_key = Some ''x = 1'', review_comments_key = Some []\<rparr>)
   \<and> encouragement_level [] = STANDARD"
  by (simp add: validate_input_def main_review_def process_review_def Let_def
      encouragement_level_def total_severity_def)

section \<open>Properties of the report composer\<close>

lemma call_ollama_cases:
  "(post prompt = Answered 200 (Inr text) \<longrightarrow> call_ollama post prompt = text)
   \<and> (post prompt = Answered status body \<and> status \<noteq> 200 \<longrightarrow>
        call_ollama post prompt = ''API Error: '' @ str_nat status)
   \<and> (post prompt = Raised (RequestException e) \<longrightarrow>
        call_ollama post prompt = ''Connection error: '' @ e)
   \<and> (post prompt = Raised (OtherException e) \<longrightarrow>
        call_ollama post prompt = ''Unexpected error: '' @ e)
   \<and> (post prompt = Answered 200 (Inl exc) \<longrightarrow>
        call_ollama post prompt = handle_exception exc)"
  by (simp add: call_ollama_def)

text \<open>
  Claim C5. Whatever the completion service does (answer, answer with an error
  status, or fail), \<^verbatim>\<open>call_ollama\<close> returns a text, an error placeholder in the last
  two cases, and the report is produced: it holds that text as it is between the
  fixed texts around it, the snippet as it is, and the closing paragraph of the
  encouragement level of the comments.
\<close>

theorem report_composition:
  "(case process_review u post \<lparr>code_snippet_key = Some code, review_comments_key = Some comments\<rparr> of
      Inl err \<Rightarrow> False
    | Inr report \<Rightarrow>
        sublist (call_ollama post (create_master_prompt u code comments)) report
        \<and> sublist code report
        \<and> sublist (summary_prompts (encouragement_level comments)) report
        \<and> (\<exists>rest. report = report_text_1 @ code @ report_text_2
              @ call_ollama post (create_master_prompt u code comments) @ report_text_3 @ rest))
   \<and> (post (create_master_prompt u code comments) = Answered 200 (Inr text) \<longrightarrow>
        call_ollama post (create_master_prompt u code comments) = text)
   \<and> (post (create_master_prompt u code comments) = Answered status body \<and> status \<noteq> 200 \<longrightarrow>
        call_ollama post (create_master_prompt u code comments) = ''API Error: '' @ str_nat status)
   \<and> (post (create_master_prompt u code comments) = Raised (RequestException e) \<longrightarrow>
        call_ollama post (create_master_prompt u code comments) = ''Connection error: '' @ e)
   \<and> (post (create_master_prompt u code comments) = Raised (OtherException e) \<longrightarrow>
        call_ollama post (create_master_prompt u code comments) = ''Unexpected error: '' @ e)"
proof -
  let ?ai = "call_ollama post (create_master_prompt u code comments)"
  let ?para = "summary_prompts (encouragement_level comments)"
  let ?report = "report_text_1 @ code @ report_text_2 @ ?ai @ report_text_3
      @ (summary_text_1 @ ?para @ summary_text_2) @ report_text_4"
  have r: "process_review u post \<lparr>code_snippet_key = Some code, review_comments_key = Some comments\<rparr>
      = Inr ?report"
    by (simp add: process_review_def create_summary_analysis_def Let_def)
  have "?report = (report_text_1 @ code @ report_text_2) @ ?ai
      @ (report_text_3 @ (summary_text_1 @ ?para @ summary_text_2) @ report_text_4)"
    by simp
  then have a: "sublist ?ai ?report" unfolding sublist_def by blast
  have "?report = report_text_1 @ code @ (report_text_2 @ ?ai @ report_text_3
      @ (summary_text_1 @ ?para @ summary_text_2) @ report_text_4)"
    by simp
  then have b: "sublist code ?report" unfolding sublist_def by blast
  have "?report = (report_text_1 @ code @ report_text_2 @ ?ai @ report_text_3 @ summary_text_1)
      @ ?para @ (summary_text_2 @ report_text_4)"
    by simp
  then have c: "sublist ?para ?report" unfolding sublist_def by blast
  have d: "\<exists>rest. ?report = report_text_1 @ code @ report_text_2 @ ?ai @ report_text_3 @ rest"
    by blast
  show ?thesis
    unfolding r using a b c d call_ollama_cases [of post "create_master_prompt u code comments"]
    by simp
qed

theorem report_composition_witness:
  "unreachable_service (create_master_prompt sample_unicode ''x = 1'' [''Bad naming.''])
     = Raised (RequestException ''connection refused'')
   \<and> call_ollama unreachable_service (create_master_prompt sample_unicode ''x = 1'' [''Bad naming.''])
     = ''Connection error: connection refused''
   \<and> (case process_review sample_unicode unreachable_service
         \<lparr>code_snippet_key = Some ''x = 1'', review_comments_key = Some [''Bad naming.'']\<rparr> of
        Inl err \<Rightarrow> False
      | Inr report \<Rightarrow> sublist ''Connection error: connection refused'' report
          \<and> sublist ''x = 1'' report)"
proof -
  let ?p = "create_master_prompt sample_unicode ''x = 1'' [''Bad naming.'']"
  have u: "unreachable_service ?p = Raised (RequestException ''connection refused'')"
    by (simp add: unreachable_service_def)
  note facts = report_composition [where post = unreachable_service and code = "''x = 1''"
      and comments = "[''Bad naming.'']" and e = "''connection refused''" and u = sample_unicode]
  have c: "call_ollama unreachable_service ?p = ''Connection error: connection refused''"
    using facts u by simp
  show ?thesis
    using facts u c by (auto split: sum.splits)
qed

section \<open>Properties of the tone selector\<close>

lemma get_contextual_tone_simps:
  "get_contextual_tone CRITICAL =
     ''I understand this feedback might have felt harsh. Let'' @ [CHR 0x27]
     @ ''s reframe it constructively''"
  "get_contextual_tone HARSH = ''This is actually a great learning opportunity''"
  "get_contextual_tone MODERATE = ''Good observation! Here'' @ [CHR 0x27] @ ''s how we can build on it''"
  "get_contextual_tone GENTLE = ''Nice suggestion! Let'' @ [CHR 0x27] @ ''s explore this further''"
  by (simp_all add: get_contextual_tone_def dict_get_def tone_map_def)

text \<open>The lookup of an object in the table finds a phrase for the members only.\<close>

lemma lookup_member:
  "map_of tone_map_objects (Member s) = map_of tone_map s"
  by (cases s) (simp_all add: tone_map_objects_def tone_map_def)

lemma lookup_other:
  assumes "\<forall>severity. x \<noteq> Member severity"
  shows "map_of tone_map_objects x = None"
proof -
  have "x \<noteq> Member CRITICAL" "x \<noteq> Member HARSH" "x \<noteq> Member MODERATE" "x \<noteq> Member GENTLE"
    using assms by simp_all
  then show ?thesis
    by (simp add: tone_map_objects_def tone_map_def)
qed

text \<open>
  Claim C6, as the code has it. Each of the four severities has one fixed phrase, the
  four phrases differ from each other and from the default phrase. An argument that
  is no severity makes the selector fail only when it cannot be hashed: the lookup
  then raises \<^verbatim>\<open>TypeError\<close>. Every other argument that is no severity gets the
  default phrase and no error.
\<close>

theorem tone_table:
  "get_contextual_tone CRITICAL =
     ''I understand this feedback might have felt harsh. Let'' @ [CHR 0x27]
     @ ''s reframe it constructively''
   \<and> get_contextual_tone HARSH = ''This is actually a great learning opportunity''
   \<and> get_contextual_tone MODERATE =
       ''Good observation! Here'' @ [CHR 0x27] @ ''s how we can build on it''
   \<and> get_contextual_tone GENTLE =
       ''Nice suggestion! Let'' @ [CHR 0x27] @ ''s explore this further''
   \<and> (get_contextual_tone s = get_contextual_tone s' \<longrightarrow> s = s')
   \<and> get_contextual_tone s \<noteq> default_tone
   \<and> get_contextual_tone_any (Member s) = Inr (get_contextual_tone s)
   \<and> (hashable x \<and> (\<forall>severity. x \<noteq> Member severity) \<longrightarrow>
        get_contextual_tone_any x = Inr (''Let'' @ [CHR 0x27] @ ''s look at this feedback''))
   \<and> (\<not> hashable x \<longrightarrow> get_contextual_tone_any x = Inl TypeError)"
proof -
  have inj: "get_contextual_tone s = get_contextual_tone s' \<longrightarrow> s = s'"
    by (cases s; cases s') (simp_all add: get_contextual_tone_simps)
  have nd: "get_contextual_tone s \<noteq> default_tone"
    by (cases s) (simp_all add: get_contextual_tone_simps default_tone_def)
  have m: "get_contextual_tone_any (Member s) = Inr (get_contextual_tone s)"
    by (simp add: get_contextual_tone_any_def get_contextual_tone_def dict_get_def lookup_member)
  have h: "hashable x \<and> (\<forall>severity. x \<noteq> Member severity) \<longrightarrow>
      get_contextual_tone_any x = Inr (''Let'' @ [CHR 0x27] @ ''s look at this feedback'')"
    by (simp add: get_contextual_tone_any_def dict_get_def lookup_other default_tone_def)
  have n: "\<not> hashable x \<longrightarrow> get_contextual_tone_any x = Inl TypeError"
    by (simp add: get_contextual_tone_any_def)
  show ?thesis
    using inj nd m h n by (simp add: get_contextual_tone_simps)
qed

theorem tone_table_witness:
  "hashable PyNone \<and> (\<forall>severity. PyNone \<noteq> Member severity)
   \<and> get_contextual_tone_any PyNone = Inr (''Let'' @ [CHR 0x27] @ ''s look at this feedback'')
   \<and> \<not> hashable (PyList [])
   \<and> get_contextual_tone_any (PyList []) = Inl TypeError
   \<and> get_contextual_tone HARSH \<noteq> get_contextual_tone GENTLE"
proof -
  have a: "hashable PyNone \<and> (\<forall>severity. PyNone \<noteq> Member severity)" by simp
  have b: "\<not> hashable (PyList [])" by simp
  show ?thesis
    using a b tone_table [where x = PyNone and s = HARSH and s' = GENTLE]
      tone_table [where x = "PyList []" and s = HARSH and s' = GENTLE]
    by auto
qed

text \<open>The claim as it is written fails: called with the string \<^verbatim>\<open>'critical'\<close>, which is
  no member of the enumeration, the selector looks it up, finds no key, and returns
  the default phrase; it raises nothing.\<close>

theorem tone_default_counterexample:
  "get_contextual_tone_any (PyStr ''critical'') =
     Inr (''Let'' @ [CHR 0x27] @ ''s look at this feedback'')
   \<and> \<not> isl (get_contextual_tone_any (PyStr ''critical''))"
  by (simp add: get_contextual_tone_any_def dict_get_def tone_map_objects_def tone_map_def
      default_tone_def)

section \<open>Properties of the pattern detector\<close>

lemma while_append:
  assumes "s = [] \<or> \<not> P (hd s)"
  shows "takeWhile P (bs @ s) = takeWhile P bs \<and> dropWhile P (bs @ s) = dropWhile P bs @ s"
proof (induction bs)
  case Nil
  show ?case using assms by (cases s) simp_all
next
  case (Cons b bs)
  then show ?case by simp
qed

text \<open>A text splits into characters part by part, where the second part does not
  begin with a continuation byte.\<close>

lemma chars_of_append:
  assumes "s = [] \<or> \<not> is_continuation_byte (hd s)"
  shows "chars_of (a @ s) = chars_of a @ chars_of s"
proof (induction a rule: chars_of.induct)
  case 1
  show ?case by simp
next
  case (2 b bs)
  show ?case
  proof (cases "is_lead_byte b")
    case True
    then show ?thesis
      using 2(1) assms while_append [where P = is_continuation_byte and s = s and bs = bs]
      by simp
  next
    case False
    then show ?thesis using 2(2) by simp
  qed
qed

lemma chars_of_ascii:
  assumes "\<forall>b \<in> set w. \<not> digit7 b"
  shows "chars_of (w @ t) = map (\<lambda>c. [c]) w @ chars_of t"
  using assms by (induction w) (simp_all add: is_lead_byte_def)

lemma chars_of_middle:
  assumes "w \<noteq> []" and "\<forall>b \<in> set w. \<not> digit7 b"
  shows "chars_of (a @ w @ t) = chars_of a @ map (\<lambda>c. [c]) w @ chars_of t"
proof -
  have "w @ t = [] \<or> \<not> is_continuation_byte (hd (w @ t))"
    using assms by (cases w) (simp_all add: is_continuation_byte_def)
  then have "chars_of (a @ w @ t) = chars_of a @ chars_of (w @ t)"
    by (rule chars_of_append)
  then show ?thesis using chars_of_ascii [OF assms(2)] by simp
qed

lemma re_match_lit: "re_match u (lit w) prev (map (\<lambda>c. [c]) w @ rest)"
  by (induction w arbitrary: prev) (simp_all add: lit_def)

text \<open>A match that does not depend on the character before it is found wherever it
  starts.\<close>

lemma search_from_append:
  assumes "list_ex (\<lambda>items. \<forall>prev. re_match u items prev s) regex"
  shows "search_from u regex prev (a @ s)"
proof (induction a arbitrary: prev)
  case Nil
  have "list_ex (\<lambda>items. re_match u items prev s) regex"
    using assms by (auto simp: list_ex_iff)
  then show ?case by (cases s) simp_all
next
  case (Cons x a)
  then show ?case by simp
qed

lemma literal_found:
  assumes "w \<in> set ws" and "w \<noteq> []" and "\<forall>b \<in> set w. \<not> digit7 b" and "sublist w code"
  shows "re_search u (map lit ws) code"
proof -
  from assms(4) obtain a t where code: "code = a @ w @ t"
    by (auto simp: sublist_def)
  have chars: "chars_of code = chars_of a @ (map (\<lambda>c. [c]) w @ chars_of t)"
    unfolding code using assms(2,3) by (rule chars_of_middle)
  have "list_ex (\<lambda>items. \<forall>prev. re_match u items prev (map (\<lambda>c. [c]) w @ chars_of t))
      (map lit ws)"
    using assms(1) re_match_lit [of u w _ "chars_of t"] by (auto simp: list_ex_iff)
  then show ?thesis
    unfolding re_search_def chars by (rule search_from_append)
qed

lemma boolean_redundancy_found:
  assumes "sublist ''== True'' code \<or> sublist ''== False'' code"
  shows "re_search u boolean_redundancy_re code"
proof -
  have re: "boolean_redundancy_re = map lit [''== True'', ''== False'']"
    by (simp add: boolean_redundancy_re_def)
  from assms show ?thesis
  proof
    assume "sublist ''== True'' code"
    then show ?thesis
      unfolding re by (intro literal_found [of "''== True''"]) simp_all
  next
    assume "sublist ''== False'' code"
    then show ?thesis
      unfolding re by (intro literal_found [of "''== False''"]) simp_all
  qed
qed

lemma magic_numbers_match:
  "re_match u [WordBoundary, AtLeast 2 Digit, WordBoundary] prev s \<Longrightarrow> has_digit_run u s"
proof -
  assume m: "re_match u [WordBoundary, AtLeast 2 Digit, WordBoundary] prev s"
  then obtain x xs where s: "s = x # xs" by (cases s) auto
  with m have x: "is_digit u x" and m1: "re_match u [AtLeast 1 Digit, WordBoundary] (Some x) xs"
    by auto
  from m1 obtain y ys where xs: "xs = y # ys" by (cases xs) auto
  with m1 have "is_digit u y" by auto
  then show ?thesis using x s xs by simp
qed

lemma has_digit_run_Cons: "has_digit_run u s \<Longrightarrow> has_digit_run u (x # s)"
  by (cases s) auto

lemma magic_numbers_search:
  "search_from u magic_numbers_re prev s \<Longrightarrow> has_digit_run u s"
proof (induction s arbitrary: prev)
  case Nil
  then show ?case by (simp add: magic_numbers_re_def)
next
  case (Cons x s)
  from Cons.prems
  have "re_match u [WordBoundary, AtLeast 2 Digit, WordBoundary] prev (x # s)
      \<or> search_from u magic_numbers_re (Some x) s"
    by (simp add: magic_numbers_re_def)
  then show ?case
  proof
    assume "re_match u [WordBoundary, AtLeast 2 Digit, WordBoundary] prev (x # s)"
    then show ?thesis by (rule magic_numbers_match)
  next
    assume "search_from u magic_numbers_re (Some x) s"
    then have "has_digit_run u s" by (rule Cons.IH)
    then show ?thesis by (rule has_digit_run_Cons)
  qed
qed

lemma pattern_flag_simps:
  "pattern_flag u ''boolean_redundancy'' code = Some (re_search u boolean_redundancy_re code)"
  "pattern_flag u ''magic_numbers'' code = Some (re_search u magic_numbers_re code)"
  by (simp_all add: pattern_flag_def detect_code_patterns_def code_patterns_def)

lemma has_digit_run_iff:
  "has_digit_run u s \<longleftrightarrow> (\<exists>a x y b. s = a @ x # y # b \<and> is_digit u x \<and> is_digit u y)"
proof
  show "has_digit_run u s \<Longrightarrow> \<exists>a x y b. s = a @ x # y # b \<and> is_digit u x \<and> is_digit u y"
  proof (induction u s rule: has_digit_run.induct)
    case (1 u x y ys)
    show ?case
    proof (cases "is_digit u x \<and> is_digit u y")
      case True
      then have "x # y # ys = [] @ x # y # ys \<and> is_digit u x \<and> is_digit u y" by simp
      then show ?thesis by blast
    next
      case False
      then have "has_digit_run u (y # ys)" using 1(2) by auto
      then obtain a v w b where "y # ys = a @ v # w # b" "is_digit u v" "is_digit u w"
        using 1(1) by blast
      then have "x # y # ys = (x # a) @ v # w # b \<and> is_digit u v \<and> is_digit u w" by simp
      then show ?thesis by blast
    qed
  qed simp_all
next
  assume "\<exists>a x y b. s = a @ x # y # b \<and> is_digit u x \<and> is_digit u y"
  then obtain a x y b where s: "s = a @ x # y # b" and d: "is_digit u x" "is_digit u y"
    by blast
  have "has_digit_run u (a @ x # y # b)"
    using d by (induction a) (simp_all add: has_digit_run_Cons)
  then show "has_digit_run u s" using s by simp
qed

text \<open>
  The detector on three snippets with characters outside ASCII: two Arabic-Indic
  digits in a row are a magic number; a letter \<^verbatim>\<open>x\<close> after the letter e with acute
  accent stands at no word boundary, so it is no single-letter name; a no-break space
  is white space between the colon and the inner loop.
\<close>

lemma magic_numbers_arabic_indic:
  "pattern_flag sample_unicode ''magic_numbers''
     (''x = '' @ [CHR 0xD9, CHR 0xA1, CHR 0xD9, CHR 0xA2]) = Some True"
  by code_simp

lemma single_letter_after_accent:
  "pattern_flag sample_unicode ''single_letter_vars'' ([CHR 0xC3, CHR 0xA9] @ ''x'') = Some False"
  by code_simp

lemma nested_loops_no_break_space:
  "pattern_flag sample_unicode ''nested_loops''
     (''for a in b:'' @ [CHR 0xC2, CHR 0xA0] @ ''for c in d'') = Some True"
  by code_simp

text \<open>
  Claim C8. For a snippet that holds the text \<^verbatim>\<open>u == True\<close> the detector reports the
  flag of the redundant comparison with a Boolean as active. For a snippet in which no
  two digits stand in a row it reports the flag of the magic numbers as inactive; the
  digits are the characters that \<^verbatim>\<open>\d\<close> matches, the ASCII digits and the decimal
  digits of the other scripts.
\<close>

theorem detect_flags:
  "(sublist ''u == True'' code \<longrightarrow> pattern_flag u ''boolean_redundancy'' code = Some True)
   \<and> (\<not> (\<exists>a x y b. chars_of code = a @ x # y # b \<and> is_digit u x \<and> is_digit u y) \<longrightarrow>
        pattern_flag u ''magic_numbers'' code = Some False)"
proof (intro conjI impI)
  assume "sublist ''u == True'' code"
  then have "sublist ''== True'' code"
    by (rule sublist_trans [rotated]) (simp add: sublist_Cons_right)
  then show "pattern_flag u ''boolean_redundancy'' code = Some True"
    by (simp add: pattern_flag_simps boolean_redundancy_found)
next
  assume "\<not> (\<exists>a x y b. chars_of code = a @ x # y # b \<and> is_digit u x \<and> is_digit u y)"
  then have "\<not> has_digit_run u (chars_of code)" by (simp add: has_digit_run_iff)
  then have "\<not> re_search u magic_numbers_re code"
    unfolding re_search_def using magic_numbers_search by blast
  then show "pattern_flag u ''magic_numbers'' code = Some False"
    by (simp add: pattern_flag_simps)
qed

theorem detect_flags_witness:
  "sublist ''u == True'' ''if u == True: return 1''
   \<and> pattern_flag sample_unicode ''boolean_redundancy'' ''if u == True: return 1'' = Some True
   \<and> \<not> has_digit_run sample_unicode (chars_of ''if u == True: return 1'')
   \<and> pattern_flag sample_unicode ''magic_numbers'' ''if u == True: return 1'' = Some False"
proof -
  let ?code = "''if u == True: return 1''"
  have a: "sublist ''u == True'' ?code"
    by (simp add: sublist_Cons_right)
  have b: "\<not> has_digit_run sample_unicode (chars_of ?code)"
    by (simp add: is_lead_byte_def is_digit_def one_of_def ascii_char_def)
  then have c: "\<not> (\<exists>a x y b. chars_of ?code = a @ x # y # b
      \<and> is_digit sample_unicode x \<and> is_digit sample_unicode y)"
    unfolding has_digit_run_iff .
  show ?thesis
    using a b c detect_flags [where code = ?code and u = sample_unicode] by blast
qed

end
